theory Spec2Isabelle
  imports Complex_Main "HOL-Library.AList"
begin

section \<open>Authentication and authorisation core of the one-system backend\<close>

text \<open>
  A shallow embedding of \<^verbatim>\<open>backend/app/core/config.py\<close> (the computed properties of
  \<^verbatim>\<open>Settings\<close>), \<^verbatim>\<open>backend/app/core/security.py\<close> (\<^verbatim>\<open>_get_jwks\<close>,
  \<^verbatim>\<open>_verify_cognito_jwt\<close>, \<^verbatim>\<open>get_current_user\<close>), \<^verbatim>\<open>backend/app/core/rbac.py\<close>
  (\<^verbatim>\<open>require_role\<close>) and the development middleware of \<^verbatim>\<open>backend/app/main.py\<close>.

  Conventions:
  \<^item> a raised exception is the left injection of a sum, a returned value the right one;
  \<^item> the two module globals \<^verbatim>\<open>_jwks_cache\<close> and \<^verbatim>\<open>_jwks_fetched_at\<close> are a record that
    every function takes and returns;
  \<^item> the python-jose library, the answer of the JWKS endpoint, the reading of the monotonic
    clock and the users table are inputs of the model;
  \<^item> a clock reading is the real number the float stands for, and the subtraction of two
    floats, which rounds, is an input of the model as well;
  \<^item> a leading underscore of a Python name is dropped, since an Isabelle name starts with a letter.
\<close>

subsection \<open>Settings (config.py)\<close>

text \<open>Python's \<^verbatim>\<open>str.lower\<close>, on ASCII letters.\<close>

definition lower_char :: "char \<Rightarrow> char" where
  "lower_char c =
     (case map_of (zip ''ABCDEFGHIJKLMNOPQRSTUVWXYZ'' ''abcdefghijklmnopqrstuvwxyz'') c of
        Some l \<Rightarrow> l
      | None \<Rightarrow> c)"

definition lower :: "string \<Rightarrow> string" where
  "lower s = map lower_char s"

text \<open>The fields of \<^verbatim>\<open>Settings\<close> that the authentication core reads.\<close>

record settings =
  environment :: string
  aws_region :: string
  cognito_user_pool_id :: string
  cognito_app_client_id :: string
  dev_skip_auth :: bool
  jwks_cache_ttl :: int

definition default_settings :: settings where
  "default_settings =
     \<lparr> environment = ''development'',
       aws_region = ''ap-southeast-7'',
       cognito_user_pool_id = '''',
       cognito_app_client_id = '''',
       dev_skip_auth = False,
       jwks_cache_ttl = 86400 \<rparr>"

definition is_development :: "settings \<Rightarrow> bool" where
  "is_development s = (lower (environment s) = ''development'')"

definition auth_disabled :: "settings \<Rightarrow> bool" where
  "auth_disabled s = (is_development s \<and> dev_skip_auth s)"

definition cognito_configured :: "settings \<Rightarrow> bool" where
  "cognito_configured s = (cognito_user_pool_id s \<noteq> [] \<and> cognito_app_client_id s \<noteq> [])"

subsection \<open>Values, errors and the users table\<close>

text \<open>
  JSON values. The code compares header and payload entries with strings and uses the
  header's \<^verbatim>\<open>kid\<close> as a dictionary key, so what matters of a value is whether it is a
  string and whether Python can hash it: lists and objects cannot be hashed. A number that
  is not an integer behaves like an integer in both respects.
\<close>

datatype json =
  JStr string | JInt int | JBool bool | JNull | JList "json list" | JObject "(string \<times> json) list"

fun hashable :: "json \<Rightarrow> bool" where
  "hashable (JList xs) = False"
| "hashable (JObject kvs) = False"
| "hashable v = True"

type_synonym claims = "string \<Rightarrow> json option"

text \<open>
  What a call can raise: an \<^verbatim>\<open>HTTPException\<close>, or one of the two exceptions that no
  handler of security.py catches, Python's \<^verbatim>\<open>TypeError\<close> and python-jose's \<^verbatim>\<open>JWKError\<close>.
\<close>

datatype py_exception =
  HTTPException (status_code: nat) (detail: string) (headers: "(string \<times> string) list")
| TypeError
| JWKError

text \<open>
  The status of the response (main.py): an \<^verbatim>\<open>HTTPException\<close> answers with its own status
  code, and \<^verbatim>\<open>unhandled_exception_handler\<close> turns every other exception into a 500.
\<close>

fun response_status :: "py_exception \<Rightarrow> nat" where
  "response_status (HTTPException code msg hs) = code"
| "response_status TypeError = 500"
| "response_status JWKError = 500"

text \<open>
  The raise sites of security.py and rbac.py, under the names the specification gives to
  the failure kinds.
\<close>

definition MalformedToken :: py_exception where
  "MalformedToken = HTTPException 401 ''Invalid token header'' []"

definition UnknownKey :: py_exception where
  "UnknownKey = HTTPException 401 ''Token key not found'' []"

definition Expired :: py_exception where
  "Expired = HTTPException 401 ''Token has expired'' []"

definition VerificationFailed :: py_exception where
  "VerificationFailed = HTTPException 401 ''Token verification failed'' []"

definition WrongIssuer :: py_exception where
  "WrongIssuer = HTTPException 401 ''Invalid token issuer'' []"

definition WrongTokenUse :: py_exception where
  "WrongTokenUse = HTTPException 401 ''Expected access token'' []"

definition Unauthenticated :: py_exception where
  "Unauthenticated = HTTPException 401 ''Not authenticated'' [(''WWW-Authenticate'', ''Bearer'')]"

definition UserNotFoundOrInactive :: py_exception where
  "UserNotFoundOrInactive = HTTPException 401 ''User not found or inactive'' []"

definition NoDevUser :: py_exception where
  "NoDevUser = HTTPException 401
     ''Dev auth: no matching user found. Set X-Dev-User-ID header or create an admin user first.'' []"

definition ServiceUnavailable :: py_exception where
  "ServiceUnavailable = HTTPException 503 ''Authentication service unavailable'' []"

definition NotConfigured :: py_exception where
  "NotConfigured = HTTPException 503 ''Authentication is not configured on this server'' []"

text \<open>
  Python's \<^verbatim>\<open>repr\<close> of a string whose code points are below 256, and of a list of such
  strings, as the f-string of rbac.py renders \<^verbatim>\<open>list(roles)\<close>. The string is quoted with
  single quotes, or with double quotes when it holds a single quote and no double quote;
  the quote in use and the backslash are escaped with a backslash; tab, newline and
  carriage return become \<^verbatim>\<open>\t\<close>, \<^verbatim>\<open>\n\<close>, \<^verbatim>\<open>\r\<close>; every other code point that is not
  printable becomes \<^verbatim>\<open>\xNN\<close>.
\<close>

definition hex_digit :: "nat \<Rightarrow> char" where
  "hex_digit n = ''0123456789abcdef'' ! (n mod 16)"

definition printable :: "char \<Rightarrow> bool" where
  "printable c =
     (let n = (of_char c :: nat)
      in 32 \<le> n \<and> n \<noteq> 127 \<and> \<not> (128 \<le> n \<and> n \<le> 160) \<and> n \<noteq> 173)"

definition py_escape :: "char \<Rightarrow> char \<Rightarrow> string" where
  "py_escape quote c =
     (if c = quote \<or> c = CHR 0x5C then [CHR 0x5C, c]
      else if c = CHR 0x09 then [CHR 0x5C, CHR ''t'']
      else if c = CHR 0x0A then [CHR 0x5C, CHR ''n'']
      else if c = CHR 0x0D then [CHR 0x5C, CHR ''r'']
      else if \<not> printable c
        then [CHR 0x5C, CHR ''x'', hex_digit (of_char c div 16), hex_digit (of_char c mod 16)]
      else [c])"

definition py_str_repr :: "string \<Rightarrow> string" where
  "py_str_repr s =
     (let quote = (if CHR 0x27 \<in> set s \<and> CHR 0x22 \<notin> set s then CHR 0x22 else CHR 0x27)
      in [quote] @ concat (map (py_escape quote) s) @ [quote])"

fun py_join :: "string \<Rightarrow> string list \<Rightarrow> string" where
  "py_join sep [] = []"
| "py_join sep [x] = x"
| "py_join sep (x # y # ys) = x @ sep @ py_join sep (y # ys)"

definition py_list_repr :: "string list \<Rightarrow> string" where
  "py_list_repr xs = ''['' @ py_join '', '' (map py_str_repr xs) @ '']''"

text \<open>A name that \<^verbatim>\<open>repr\<close> leaves as it is between single quotes.\<close>

definition plain_name :: "string \<Rightarrow> bool" where
  "plain_name s = list_all (\<lambda>c. printable c \<and> c \<noteq> CHR 0x27 \<and> c \<noteq> CHR 0x5C) s"

definition Forbidden :: "string list \<Rightarrow> py_exception" where
  "Forbidden roles = HTTPException 403 (''Requires one of roles: '' @ py_list_repr roles) []"

text \<open>A row of the \<^verbatim>\<open>users\<close> table (models/user.py).\<close>

record user =
  user_id :: nat
  cognito_user_id :: string
  full_name :: string
  email :: "string option"
  role :: string
  responsible_province :: "string option"
  is_active :: bool
  created_at :: int

text \<open>
  The table is the list of its rows in the order in which a \<^verbatim>\<open>SELECT\<close> without
  \<^verbatim>\<open>ORDER BY\<close> yields them; \<^verbatim>\<open>.scalars().first()\<close> is the first row that satisfies
  the \<^verbatim>\<open>WHERE\<close> clause.
\<close>

type_synonym db = "user list"

definition scalars_first :: "(user \<Rightarrow> bool) \<Rightarrow> db \<Rightarrow> user option" where
  "scalars_first wh rows = List.find wh rows"

text \<open>
  For comparison with the fallback query of the code, the fallback as the specification
  words it: the most recently created active ADMIN user.
\<close>

definition most_recent_active_admin :: "db \<Rightarrow> user option" where
  "most_recent_active_admin rows =
     (case filter (\<lambda>u. role u = ''ADMIN'' \<and> is_active u) rows of
        [] \<Rightarrow> None
      | a # as \<Rightarrow> Some (fold (\<lambda>u best. if created_at best < created_at u then u else best) as a))"

subsection \<open>The signing-key cache (security.py, \<^verbatim>\<open>_get_jwks\<close>)\<close>

record jwk =
  jwk_kid :: string
  jwk_alg :: string
  jwk_material :: string

text \<open>
  A Python \<^verbatim>\<open>dict\<close> from key id to key, as an association list with distinct keys.
  The comprehension \<^verbatim>\<open>{k["kid"]: k for k in keys}\<close> lets a later entry replace an earlier
  one with the same key id.
\<close>

type_synonym jwks = "(string \<times> jwk) list"

definition dict_of_keys :: "jwk list \<Rightarrow> jwks" where
  "dict_of_keys keys = foldl (\<lambda>d k. AList.update (jwk_kid k) k d) [] keys"

record jwks_state =
  jwks_cache :: jwks
  jwks_fetched_at :: real

definition initial_state :: jwks_state where
  "initial_state = \<lparr> jwks_cache = [], jwks_fetched_at = 0 \<rparr>"

text \<open>
  What a call does: the value it returns or the exception it raises, the module globals
  after it, and the number of HTTP requests it sent to the JWKS endpoint.
\<close>

record 'a outcome =
  result :: "py_exception + 'a"
  globals :: jwks_state
  http_gets :: nat

text \<open>The same globals and request count, with another return value or exception.\<close>

definition returning :: "'a outcome \<Rightarrow> py_exception + 'b \<Rightarrow> 'b outcome" where
  "returning out r = \<lparr> result = r, globals = globals out, http_gets = http_gets out \<rparr>"

text \<open>
  \<^verbatim>\<open>now\<close> is the reading of \<^verbatim>\<open>time.monotonic()\<close>, a float, held here by the real number
  it stands for. \<^verbatim>\<open>fsub\<close> is Python's subtraction of two floats, which rounds the exact
  difference to a float; it is an input of the model and nothing is assumed about it. The
  comparison of the float with the integer TTL is exact in Python. \<^verbatim>\<open>net\<close> is what the
  body of the \<^verbatim>\<open>try\<close> block obtains if it runs: \<^verbatim>\<open>Some keys\<close> when the request, the
  status check, the JSON decoding and the comprehension all succeed (the key ids of the
  provider's keys are strings), \<^verbatim>\<open>None\<close> when any of them raises.
\<close>

definition get_jwks ::
  "(real \<Rightarrow> real \<Rightarrow> real) \<Rightarrow> settings \<Rightarrow> real \<Rightarrow> jwk list option \<Rightarrow> jwks_state \<Rightarrow> jwks outcome" where
  "get_jwks fsub s now net st =
     (if jwks_cache st \<noteq> [] \<and> fsub now (jwks_fetched_at st) < real_of_int (jwks_cache_ttl s)
      then \<lparr> result = Inr (jwks_cache st), globals = st, http_gets = 0 \<rparr>
      else if \<not> cognito_configured s
      then \<lparr> result = Inr [], globals = st, http_gets = 0 \<rparr>
      else (case net of
          Some keys \<Rightarrow>
            let st' = st \<lparr> jwks_cache := dict_of_keys keys, jwks_fetched_at := now \<rparr>
            in \<lparr> result = Inr (jwks_cache st'), globals = st', http_gets = 1 \<rparr>
        | None \<Rightarrow>
            if jwks_cache st \<noteq> []
            then \<lparr> result = Inr (jwks_cache st), globals = st, http_gets = 1 \<rparr>
            else \<lparr> result = Inl ServiceUnavailable, globals = st, http_gets = 1 \<rparr>))"

text \<open>
  Successive calls, each with its clock reading and with what the endpoint would answer;
  every call starts from the globals the previous one left.
\<close>

fun get_jwks_calls ::
  "(real \<Rightarrow> real \<Rightarrow> real) \<Rightarrow> settings \<Rightarrow> (real \<times> jwk list option) list \<Rightarrow> jwks_state
     \<Rightarrow> jwks outcome list" where
  "get_jwks_calls fsub s [] st = []"
| "get_jwks_calls fsub s ((now, net) # rest) st =
     (let out = get_jwks fsub s now net st in out # get_jwks_calls fsub s rest (globals out))"

subsection \<open>The token verifier (security.py, \<^verbatim>\<open>_verify_cognito_jwt\<close>)\<close>

text \<open>
  The three python-jose entry points the verifier calls, as they behave at the moment of
  the call: \<^verbatim>\<open>jwt.get_unverified_header\<close> (\<^verbatim>\<open>None\<close> when it raises \<^verbatim>\<open>JWTError\<close>),
  \<^verbatim>\<open>jwk.construct\<close> (\<^verbatim>\<open>None\<close> when it raises \<^verbatim>\<open>JWKError\<close>, which is not a
  \<^verbatim>\<open>JWTError\<close>), and \<^verbatim>\<open>jwt.decode\<close> with \<^verbatim>\<open>algorithms=["RS256"]\<close> and the audience check
  off, which raises \<^verbatim>\<open>ExpiredSignatureError\<close>, raises another \<^verbatim>\<open>JWTError\<close>, or returns the
  payload.
\<close>

datatype decode_outcome = ExpiredSignatureError | JWTError | Decoded claims

record 'k jose =
  get_unverified_header :: "string \<Rightarrow> claims option"
  construct :: "jwk \<Rightarrow> 'k option"
  decode :: "string \<Rightarrow> 'k \<Rightarrow> decode_outcome"

definition expected_issuer :: "settings \<Rightarrow> string" where
  "expected_issuer s =
     ''https://cognito-idp.'' @ aws_region s @ ''.amazonaws.com/'' @ cognito_user_pool_id s"

text \<open>
  \<^verbatim>\<open>kid not in jwks\<close> and \<^verbatim>\<open>jwks[kid]\<close> for the value of \<^verbatim>\<open>header.get("kid")\<close>: the
  membership test hashes the value and raises \<^verbatim>\<open>TypeError\<close> for a list or an object;
  \<^verbatim>\<open>Inr None\<close> when the value is not a key of the dictionary, whose keys are strings.
\<close>

definition jwks_lookup :: "jwks \<Rightarrow> json option \<Rightarrow> py_exception + jwk option" where
  "jwks_lookup jwks kid =
     (case kid of
        None \<Rightarrow> Inr None
      | Some v \<Rightarrow>
          if \<not> hashable v then Inl TypeError
          else (case v of JStr k \<Rightarrow> Inr (map_of jwks k) | _ \<Rightarrow> Inr None))"

text \<open>
  The membership test and \<^verbatim>\<open>jwk.construct\<close> stand outside both \<^verbatim>\<open>try\<close> blocks, so
  what they raise leaves the function as it is.
\<close>

definition verify_cognito_jwt ::
  "'k jose \<Rightarrow> settings \<Rightarrow> string \<Rightarrow> jwks \<Rightarrow> py_exception + claims" where
  "verify_cognito_jwt J s token jwks =
     (case get_unverified_header J token of
        None \<Rightarrow> Inl MalformedToken
      | Some unverified_header \<Rightarrow>
          (case jwks_lookup jwks (unverified_header ''kid'') of
             Inl e \<Rightarrow> Inl e
           | Inr None \<Rightarrow> Inl UnknownKey
           | Inr (Some entry) \<Rightarrow>
               (case construct J entry of
                  None \<Rightarrow> Inl JWKError
                | Some key \<Rightarrow>
                    let issuer = expected_issuer s
                    in (case decode J token key of
                          ExpiredSignatureError \<Rightarrow> Inl Expired
                        | JWTError \<Rightarrow> Inl VerificationFailed
                        | Decoded payload \<Rightarrow>
                            if payload ''iss'' \<noteq> Some (JStr issuer) then Inl WrongIssuer
                            else if payload ''token_use'' \<noteq> Some (JStr ''access'')
                            then Inl WrongTokenUse
                            else Inr payload))))"

subsection \<open>The identity resolver (security.py, \<^verbatim>\<open>get_current_user\<close>)\<close>

text \<open>Everything outside the request that a call reads.\<close>

record 'k world =
  lib :: "'k jose"
  config :: settings
  clock :: real
  float_sub :: "real \<Rightarrow> real \<Rightarrow> real"
  jwks_endpoint :: "jwk list option"
  users :: db

text \<open>
  \<^verbatim>\<open>token\<close> is what \<^verbatim>\<open>oauth2_scheme\<close> extracts from the Authorization header
  (\<^verbatim>\<open>auto_error=False\<close>: \<^verbatim>\<open>None\<close> when there is none); \<^verbatim>\<open>dev_cognito_sub\<close> is the value of
  the context variable \<^verbatim>\<open>_dev_cognito_sub\<close>.
\<close>

definition get_current_user ::
  "'k world \<Rightarrow> string option \<Rightarrow> string option \<Rightarrow> jwks_state \<Rightarrow> user outcome" where
  "get_current_user W token dev_cognito_sub st =
     (if auth_disabled (config W) then
        let found =
              (case dev_cognito_sub of
                 Some cognito_sub \<Rightarrow>
                   if cognito_sub \<noteq> []
                   then scalars_first (\<lambda>u. cognito_user_id u = cognito_sub) (users W)
                   else scalars_first (\<lambda>u. role u = ''ADMIN'' \<and> is_active u) (users W)
               | None \<Rightarrow> scalars_first (\<lambda>u. role u = ''ADMIN'' \<and> is_active u) (users W))
        in (case found of
              Some u \<Rightarrow> \<lparr> result = Inr u, globals = st, http_gets = 0 \<rparr>
            | None \<Rightarrow> \<lparr> result = Inl NoDevUser, globals = st, http_gets = 0 \<rparr>)
      else
        (case token of
           None \<Rightarrow> \<lparr> result = Inl Unauthenticated, globals = st, http_gets = 0 \<rparr>
         | Some tok \<Rightarrow>
             if tok = [] then \<lparr> result = Inl Unauthenticated, globals = st, http_gets = 0 \<rparr>
             else if \<not> cognito_configured (config W)
             then \<lparr> result = Inl NotConfigured, globals = st, http_gets = 0 \<rparr>
             else
               let fetched = get_jwks (float_sub W) (config W) (clock W) (jwks_endpoint W) st
               in (case result fetched of
                     Inl e \<Rightarrow> returning fetched (Inl e)
                   | Inr jwks \<Rightarrow>
                       (case verify_cognito_jwt (lib W) (config W) tok jwks of
                          Inl e \<Rightarrow> returning fetched (Inl e)
                        | Inr payload \<Rightarrow>
                            (case scalars_first
                                    (\<lambda>u. Some (JStr (cognito_user_id u)) = payload ''sub'') (users W) of
                               None \<Rightarrow> returning fetched (Inl UserNotFoundOrInactive)
                             | Some u \<Rightarrow>
                                 if \<not> is_active u
                                 then returning fetched (Inl UserNotFoundOrInactive)
                                 else returning fetched (Inr u))))))"

subsection \<open>The role guard (rbac.py, \<^verbatim>\<open>require_role\<close>)\<close>

definition check_role :: "string list \<Rightarrow> user outcome \<Rightarrow> user outcome" where
  "check_role roles resolved =
     (case result resolved of
        Inl e \<Rightarrow> resolved
      | Inr current_user \<Rightarrow>
          if roles \<noteq> [] \<and> role current_user \<notin> set roles
          then returning resolved (Inl (Forbidden roles))
          else resolved)"

definition require_role ::
  "string list \<Rightarrow> 'k world \<Rightarrow> string option \<Rightarrow> string option \<Rightarrow> jwks_state \<Rightarrow> user outcome" where
  "require_role roles W token dev_cognito_sub st =
     check_role roles (get_current_user W token dev_cognito_sub st)"

subsection \<open>The development middleware (main.py)\<close>

text \<open>An inbound request: its headers, and the bearer token \<^verbatim>\<open>oauth2_scheme\<close> reads from them.\<close>

record request =
  req_headers :: "(string \<times> string) list"
  bearer_token :: "string option"

text \<open>Starlette's \<^verbatim>\<open>request.headers.get\<close>: header names compare without regard to case.\<close>

definition headers_get :: "(string \<times> string) list \<Rightarrow> string \<Rightarrow> string option" where
  "headers_get hs name = map_of (map (\<lambda>(k, v). (lower k, v)) hs) (lower name)"

text \<open>
  \<^verbatim>\<open>create_app\<close> installs \<^verbatim>\<open>dev_auth_middleware\<close> only when \<^verbatim>\<open>settings.auth_disabled\<close>;
  without it the context variable keeps its default \<^verbatim>\<open>None\<close>.
\<close>

definition dev_auth_middleware :: "request \<Rightarrow> string option" where
  "dev_auth_middleware req = headers_get (req_headers req) ''X-Dev-User-ID''"

definition context_var :: "settings \<Rightarrow> request \<Rightarrow> string option" where
  "context_var s req = (if auth_disabled s then dev_auth_middleware req else None)"

text \<open>A route that depends on \<^verbatim>\<open>require_role(*roles)\<close>, served by the application.\<close>

definition serve :: "string list \<Rightarrow> 'k world \<Rightarrow> request \<Rightarrow> jwks_state \<Rightarrow> user outcome" where
  "serve roles W req st =
     require_role roles W (bearer_token req) (context_var (config W) req) st"

subsection \<open>Fixtures\<close>

text \<open>
  The values of the test-suite (tests/test_security.py, tests/conftest.py), and a stand-in
  for python-jose that knows a handful of tokens by name: \<^verbatim>\<open>list-kid\<close> stands for a token
  whose header is \<^verbatim>\<open>{"alg": "RS256", "kid": ["test-key-1"]}\<close>. The examples below run on
  them.
\<close>

definition test_settings :: settings where
  "test_settings =
     \<lparr> environment = ''production'',
       aws_region = ''ap-southeast-7'',
       cognito_user_pool_id = ''ap-southeast-7_TestPool'',
       cognito_app_client_id = ''testclientid123'',
       dev_skip_auth = False,
       jwks_cache_ttl = 86400 \<rparr>"

definition dev_settings :: settings where
  "dev_settings = test_settings \<lparr> environment := ''development'', dev_skip_auth := True \<rparr>"

definition TEST_ISS :: string where
  "TEST_ISS = ''https://cognito-idp.ap-southeast-7.amazonaws.com/ap-southeast-7_TestPool''"

definition test_key :: jwk where
  "test_key = \<lparr> jwk_kid = ''test-key-1'', jwk_alg = ''RS256'', jwk_material = ''test-public-key'' \<rparr>"

definition FAKE_JWKS :: jwks where
  "FAKE_JWKS = [(''test-key-1'', test_key)]"

definition rotated_key :: jwk where
  "rotated_key =
     \<lparr> jwk_kid = ''test-key-2'', jwk_alg = ''RS256'', jwk_material = ''rotated-public-key'' \<rparr>"

definition warm_state :: jwks_state where
  "warm_state = \<lparr> jwks_cache = FAKE_JWKS, jwks_fetched_at = 900 \<rparr>"

definition make_payload :: "string \<Rightarrow> string \<Rightarrow> string \<Rightarrow> claims" where
  "make_payload sub iss token_use =
     [''sub'' \<mapsto> JStr sub, ''iss'' \<mapsto> JStr iss, ''token_use'' \<mapsto> JStr token_use]"

definition test_lib :: "jwk jose" where
  "test_lib =
     \<lparr> get_unverified_header =
         (\<lambda>t. if t = ''not.a.jwt'' then None
              else if t = ''rotated'' then Some [''kid'' \<mapsto> JStr ''test-key-2'']
              else if t = ''list-kid'' then Some [''kid'' \<mapsto> JList [JStr ''test-key-1'']]
              else Some [''kid'' \<mapsto> JStr ''test-key-1'']),
       construct = (\<lambda>k. if jwk_alg k = [] then None else Some k),
       decode =
         (\<lambda>t k. if jwk_material k \<noteq> ''test-public-key'' then JWTError
                else if t = ''valid'' then Decoded (make_payload ''sub-admin'' TEST_ISS ''access'')
                else if t = ''expired'' then ExpiredSignatureError
                else if t = ''wrong-issuer''
                  then Decoded (make_payload ''sub-admin'' ''https://accounts.google.com'' ''access'')
                else if t = ''id-token'' then Decoded (make_payload ''sub-admin'' TEST_ISS ''id'')
                else JWTError) \<rparr>"

definition admin_user :: user where
  "admin_user =
     \<lparr> user_id = 1, cognito_user_id = ''sub-admin'', full_name = ''Test Admin'',
       email = Some ''admin@test.local'', role = ''ADMIN'', responsible_province = None,
       is_active = True, created_at = 100 \<rparr>"

definition officer_user :: user where
  "officer_user =
     \<lparr> user_id = 2, cognito_user_id = ''sub-officer'', full_name = ''Test Officer'',
       email = Some ''officer@test.local'', role = ''OFFICER'', responsible_province = None,
       is_active = True, created_at = 200 \<rparr>"

definition blank_subject_user :: user where
  "blank_subject_user =
     \<lparr> user_id = 3, cognito_user_id = '''', full_name = ''Blank Subject'',
       email = None, role = ''OFFICER'', responsible_province = None,
       is_active = True, created_at = 50 \<rparr>"

definition inactive_user :: user where
  "inactive_user =
     \<lparr> user_id = 4, cognito_user_id = ''sub-inactive'', full_name = ''Former Officer'',
       email = None, role = ''OFFICER'', responsible_province = None,
       is_active = False, created_at = 150 \<rparr>"

definition newer_admin :: user where
  "newer_admin =
     \<lparr> user_id = 5, cognito_user_id = ''sub-admin-2'', full_name = ''Second Admin'',
       email = None, role = ''ADMIN'', responsible_province = None,
       is_active = True, created_at = 300 \<rparr>"

text \<open>
  The clock readings of the examples are whole numbers of seconds far below \<open>2 ^ 53\<close>;
  the difference of two such floats is exact, so float subtraction is subtraction on them.
\<close>

definition test_world :: "settings \<Rightarrow> db \<Rightarrow> jwk world" where
  "test_world cfg rows =
     \<lparr> lib = test_lib, config = cfg, clock = 1000, float_sub = (-),
       jwks_endpoint = Some [test_key], users = rows \<rparr>"


lemmas error_defs =
  MalformedToken_def UnknownKey_def Expired_def VerificationFailed_def WrongIssuer_def
  WrongTokenUse_def Unauthenticated_def UserNotFoundOrInactive_def NoDevUser_def
  ServiceUnavailable_def NotConfigured_def Forbidden_def

lemmas fixture_defs =
  test_settings_def dev_settings_def TEST_ISS_def test_key_def FAKE_JWKS_def rotated_key_def
  warm_state_def make_payload_def
  test_lib_def admin_user_def officer_user_def blank_subject_user_def inactive_user_def
  newer_admin_def test_world_def

lemmas config_defs =
  lower_def lower_char_def is_development_def auth_disabled_def cognito_configured_def

lemmas repr_defs =
  py_list_repr_def py_str_repr_def py_escape_def printable_def hex_digit_def Let_def

subsection \<open>Auxiliary facts\<close>

lemma scalars_first_SomeD:
  "scalars_first wh rows = Some u \<Longrightarrow> wh u \<and> u \<in> set rows"
  by (auto simp: scalars_first_def find_Some_iff)

lemma flag_irrelevant:
  "cognito_configured (s\<lparr>dev_skip_auth := f\<rparr>) = cognito_configured s"
  "get_jwks fsub (s\<lparr>dev_skip_auth := f\<rparr>) = get_jwks fsub s"
  "verify_cognito_jwt J (s\<lparr>dev_skip_auth := f\<rparr>) = verify_cognito_jwt J s"
  by (simp_all add: cognito_configured_def verify_cognito_jwt_def expected_issuer_def
        get_jwks_def fun_eq_iff Let_def
        split: option.splits sum.splits decode_outcome.splits)

lemma production_path:
  "\<not> auth_disabled (config W) \<Longrightarrow>
     get_current_user W token ctx st =
       (case token of
           None \<Rightarrow> \<lparr> result = Inl Unauthenticated, globals = st, http_gets = 0 \<rparr>
         | Some tok \<Rightarrow>
             if tok = [] then \<lparr> result = Inl Unauthenticated, globals = st, http_gets = 0 \<rparr>
             else if \<not> cognito_configured (config W)
             then \<lparr> result = Inl NotConfigured, globals = st, http_gets = 0 \<rparr>
             else
               let fetched = get_jwks (float_sub W) (config W) (clock W) (jwks_endpoint W) st
               in (case result fetched of
                     Inl e \<Rightarrow> returning fetched (Inl e)
                   | Inr jwks \<Rightarrow>
                       (case verify_cognito_jwt (lib W) (config W) tok jwks of
                          Inl e \<Rightarrow> returning fetched (Inl e)
                        | Inr payload \<Rightarrow>
                            (case scalars_first
                                    (\<lambda>u. Some (JStr (cognito_user_id u)) = payload ''sub'') (users W) of
                               None \<Rightarrow> returning fetched (Inl UserNotFoundOrInactive)
                             | Some u \<Rightarrow>
                                 if \<not> is_active u
                                 then returning fetched (Inl UserNotFoundOrInactive)
                                 else returning fetched (Inr u)))))"
  by (simp add: get_current_user_def)

lemma update_not_Nil: "AList.update k v d \<noteq> []"
  by (cases d) auto

lemma foldl_update_not_Nil:
  "d \<noteq> [] \<Longrightarrow> foldl (\<lambda>d k. AList.update (jwk_kid k) k d) d ks \<noteq> []"
  by (induction ks arbitrary: d) (simp_all add: update_not_Nil)

lemma dict_of_keys_Nil_iff: "dict_of_keys ks = [] \<longleftrightarrow> ks = []"
  by (cases ks) (simp_all add: dict_of_keys_def foldl_update_not_Nil update_not_Nil)

lemma fresh_cache_hit:
  "jwks_cache st \<noteq> [] \<Longrightarrow> fsub now (jwks_fetched_at st) < real_of_int (jwks_cache_ttl s) \<Longrightarrow>
     get_jwks fsub s now net st = \<lparr> result = Inr (jwks_cache st), globals = st, http_gets = 0 \<rparr>"
  by (simp add: get_jwks_def)

lemma fresh_cache_hits:
  "jwks_cache st \<noteq> [] \<Longrightarrow>
   \<forall>(now, net) \<in> set calls. fsub now (jwks_fetched_at st) < real_of_int (jwks_cache_ttl s) \<Longrightarrow>
   \<forall>out \<in> set (get_jwks_calls fsub s calls st).
      out = \<lparr> result = Inr (jwks_cache st), globals = st, http_gets = 0 \<rparr>"
  by (induction calls) (auto simp: fresh_cache_hit Let_def)


lemma scalars_first_split:
  "scalars_first wh rows = Some u \<Longrightarrow>
     wh u \<and> (\<exists>before after. rows = before @ u # after \<and> (\<forall>v \<in> set before. \<not> wh v))"
proof (induction rows)
  case Nil
  then show ?case by (simp add: scalars_first_def)
next
  case (Cons x xs)
  show ?case
  proof (cases "wh x")
    case True
    with Cons.prems have "u = x" by (simp add: scalars_first_def)
    with True have "wh u \<and> x # xs = [] @ u # xs \<and> (\<forall>v \<in> set []. \<not> wh v)" by simp
    then show ?thesis by blast
  next
    case False
    with Cons.prems have "scalars_first wh xs = Some u" by (simp add: scalars_first_def)
    from Cons.IH [OF this] obtain before after
      where "wh u" and "xs = before @ u # after" and "\<forall>v \<in> set before. \<not> wh v"
      by blast
    with False have "wh u \<and> x # xs = (x # before) @ u # after \<and> (\<forall>v \<in> set (x # before). \<not> wh v)"
      by simp
    then show ?thesis by blast
  qed
qed


lemma resolved_user_active_unless_override:
  "result (get_current_user W token ctx st) = Inr u \<Longrightarrow>
     is_active u \<or>
     (auth_disabled (config W) \<and> (\<exists>sub. ctx = Some sub \<and> sub \<noteq> [] \<and> cognito_user_id u = sub))"
  by (auto simp: get_current_user_def returning_def Let_def
        split: option.splits if_splits sum.splits dest: scalars_first_SomeD)

lemma py_escape_plain:
  "printable c \<Longrightarrow> c \<noteq> CHR 0x27 \<Longrightarrow> c \<noteq> CHR 0x5C \<Longrightarrow> py_escape (CHR 0x27) c = [c]"
  by (auto simp: py_escape_def printable_def Let_def)

lemma concat_escape_plain:
  "plain_name s \<Longrightarrow> concat (map (py_escape (CHR 0x27)) s) = s"
  by (induction s) (simp_all add: plain_name_def py_escape_plain)

lemma plain_name_no_quote: "plain_name s \<Longrightarrow> CHR 0x27 \<notin> set s"
  by (induction s) (auto simp: plain_name_def)

lemma py_str_repr_plain:
  "plain_name s \<Longrightarrow> py_str_repr s = [CHR 0x27] @ s @ [CHR 0x27]"
  by (simp add: py_str_repr_def plain_name_no_quote concat_escape_plain Let_def)

lemma py_join_contains:
  "x \<in> set xs \<Longrightarrow> \<exists>pre post. py_join sep xs = pre @ x @ post"
proof (induction sep xs rule: py_join.induct)
  case (1 sep)
  then show ?case by simp
next
  case (2 sep y)
  then have "py_join sep [y] = [] @ x @ []" by simp
  then show ?case by blast
next
  case (3 sep y z zs)
  show ?case
  proof (cases "x = y")
    case True
    then have "py_join sep (y # z # zs) = [] @ x @ (sep @ py_join sep (z # zs))" by simp
    then show ?thesis by blast
  next
    case False
    with 3 obtain pre post where "py_join sep (z # zs) = pre @ x @ post" by auto
    then have "py_join sep (y # z # zs) = (y @ sep @ pre) @ x @ post" by simp
    then show ?thesis by blast
  qed
qed

lemma py_list_repr_contains:
  "r \<in> set roles \<Longrightarrow> \<exists>pre post. py_list_repr roles = pre @ py_str_repr r @ post"
proof -
  assume "r \<in> set roles"
  then have "py_str_repr r \<in> set (map py_str_repr roles)" by simp
  from py_join_contains [OF this, of "'', ''"]
  obtain pre post where "py_join '', '' (map py_str_repr roles) = pre @ py_str_repr r @ post"
    by blast
  then have "py_list_repr roles = (''['' @ pre) @ py_str_repr r @ (post @ '']'')"
    by (simp add: py_list_repr_def)
  then show ?thesis by blast
qed

lemma forbidden_names_role:
  "r \<in> set roles \<Longrightarrow> plain_name r \<Longrightarrow>
     \<exists>pre post. detail (Forbidden roles) = pre @ [CHR 0x27] @ r @ [CHR 0x27] @ post"
proof -
  assume r: "r \<in> set roles" and p: "plain_name r"
  from py_list_repr_contains [OF r] obtain pre post
    where "py_list_repr roles = pre @ py_str_repr r @ post" by blast
  with p have "detail (Forbidden roles)
      = (''Requires one of roles: '' @ pre) @ [CHR 0x27] @ r @ [CHR 0x27] @ post"
    by (simp add: Forbidden_def py_str_repr_plain)
  then show ?thesis by blast
qed

lemma verify_steps:
  "(get_unverified_header J token = None \<longrightarrow>
      verify_cognito_jwt J s token jwks = Inl MalformedToken) \<and>
   (\<forall>h. get_unverified_header J token = Some h \<and> h ''kid'' = None \<longrightarrow>
      verify_cognito_jwt J s token jwks = Inl UnknownKey) \<and>
   (\<forall>h kid. get_unverified_header J token = Some h \<and> h ''kid'' = Some (JStr kid) \<and>
        map_of jwks kid = None \<longrightarrow>
      verify_cognito_jwt J s token jwks = Inl UnknownKey) \<and>
   (\<forall>h kid entry key. get_unverified_header J token = Some h \<and> h ''kid'' = Some (JStr kid) \<and>
        map_of jwks kid = Some entry \<and> construct J entry = Some key \<and>
        decode J token key = JWTError \<longrightarrow>
      verify_cognito_jwt J s token jwks = Inl VerificationFailed) \<and>
   (\<forall>h kid entry key. get_unverified_header J token = Some h \<and> h ''kid'' = Some (JStr kid) \<and>
        map_of jwks kid = Some entry \<and> construct J entry = Some key \<and>
        decode J token key = ExpiredSignatureError \<longrightarrow>
      verify_cognito_jwt J s token jwks = Inl Expired) \<and>
   (\<forall>h kid entry key payload. get_unverified_header J token = Some h \<and>
        h ''kid'' = Some (JStr kid) \<and> map_of jwks kid = Some entry \<and>
        construct J entry = Some key \<and> decode J token key = Decoded payload \<and>
        payload ''iss'' \<noteq> Some (JStr (expected_issuer s)) \<longrightarrow>
      verify_cognito_jwt J s token jwks = Inl WrongIssuer) \<and>
   (\<forall>h kid entry key payload. get_unverified_header J token = Some h \<and>
        h ''kid'' = Some (JStr kid) \<and> map_of jwks kid = Some entry \<and>
        construct J entry = Some key \<and> decode J token key = Decoded payload \<and>
        payload ''iss'' = Some (JStr (expected_issuer s)) \<and>
        payload ''token_use'' \<noteq> Some (JStr ''access'') \<longrightarrow>
      verify_cognito_jwt J s token jwks = Inl WrongTokenUse) \<and>
   (\<forall>h v. get_unverified_header J token = Some h \<and> h ''kid'' = Some v \<and> \<not> hashable v \<longrightarrow>
      verify_cognito_jwt J s token jwks = Inl TypeError) \<and>
   (\<forall>h kid entry. get_unverified_header J token = Some h \<and> h ''kid'' = Some (JStr kid) \<and>
        map_of jwks kid = Some entry \<and> construct J entry = None \<longrightarrow>
      verify_cognito_jwt J s token jwks = Inl JWKError) \<and>
   distinct [MalformedToken, UnknownKey, VerificationFailed, Expired, WrongIssuer, WrongTokenUse,
             TypeError, JWKError]"
  by (simp add: verify_cognito_jwt_def jwks_lookup_def error_defs)

section \<open>Properties\<close>

subsection \<open>The role guard\<close>

text \<open>
  C9. The guard built by \<^verbatim>\<open>require_role\<close>: with no roles it is identity resolution itself
  (authentication only); it hands on a failure of resolution unchanged; when the resolved
  user's role is not among a non-empty set of roles it fails with the 403 exception whose
  detail is the text "Requires one of roles: " followed by Python's rendering of the list
  of roles, in which every acceptable role with a plain name stands between single quotes;
  and when the role is among them it returns the user.
\<close>

theorem require_role_guard:
  "(roles = [] \<longrightarrow>
      require_role roles W token ctx st = get_current_user W token ctx st) \<and>
   (\<forall>e. result (get_current_user W token ctx st) = Inl e \<longrightarrow>
      require_role roles W token ctx st = get_current_user W token ctx st) \<and>
   (\<forall>u. result (get_current_user W token ctx st) = Inr u \<and> roles \<noteq> [] \<and> role u \<notin> set roles \<longrightarrow>
      result (require_role roles W token ctx st) = Inl (Forbidden roles) \<and>
      globals (require_role roles W token ctx st) = globals (get_current_user W token ctx st) \<and>
      status_code (Forbidden roles) = 403 \<and>
      response_status (Forbidden roles) = 403 \<and>
      detail (Forbidden roles) = ''Requires one of roles: '' @ py_list_repr roles \<and>
      (\<forall>r \<in> set roles. plain_name r \<longrightarrow>
         (\<exists>pre post. detail (Forbidden roles) = pre @ [CHR 0x27] @ r @ [CHR 0x27] @ post))) \<and>
   (\<forall>u. result (get_current_user W token ctx st) = Inr u \<and> role u \<in> set roles \<longrightarrow>
      require_role roles W token ctx st = get_current_user W token ctx st \<and>
      result (require_role roles W token ctx st) = Inr u)"
proof -
  have names: "\<forall>r \<in> set roles. plain_name r \<longrightarrow>
         (\<exists>pre post. detail (Forbidden roles) = pre @ [CHR 0x27] @ r @ [CHR 0x27] @ post)"
    using forbidden_names_role by blast
  have codes: "status_code (Forbidden roles) = 403" "response_status (Forbidden roles) = 403"
    "detail (Forbidden roles) = ''Requires one of roles: '' @ py_list_repr roles"
    by (simp_all add: Forbidden_def)
  have guard: "(roles = [] \<longrightarrow>
      require_role roles W token ctx st = get_current_user W token ctx st) \<and>
   (\<forall>e. result (get_current_user W token ctx st) = Inl e \<longrightarrow>
      require_role roles W token ctx st = get_current_user W token ctx st) \<and>
   (\<forall>u. result (get_current_user W token ctx st) = Inr u \<and> roles \<noteq> [] \<and> role u \<notin> set roles \<longrightarrow>
      result (require_role roles W token ctx st) = Inl (Forbidden roles) \<and>
      globals (require_role roles W token ctx st) = globals (get_current_user W token ctx st)) \<and>
   (\<forall>u. result (get_current_user W token ctx st) = Inr u \<and> role u \<in> set roles \<longrightarrow>
      require_role roles W token ctx st = get_current_user W token ctx st \<and>
      result (require_role roles W token ctx st) = Inr u)"
    by (auto simp: require_role_def check_role_def returning_def split: sum.splits)
  from guard names codes show ?thesis by blast
qed

theorem require_role_guard_witness:
  "result (get_current_user (test_world dev_settings [admin_user, officer_user]) None
      (Some ''sub-officer'') initial_state) = Inr officer_user \<and>
   [''ADMIN'', ''DISPATCHER''] \<noteq> [] \<and> role officer_user \<notin> set [''ADMIN'', ''DISPATCHER''] \<and>
   result (require_role [''ADMIN'', ''DISPATCHER''] (test_world dev_settings [admin_user, officer_user])
      None (Some ''sub-officer'') initial_state) = Inl (Forbidden [''ADMIN'', ''DISPATCHER'']) \<and>
   plain_name ''ADMIN'' \<and> plain_name ''DISPATCHER'' \<and>
   (\<exists>pre post. detail (Forbidden [''ADMIN'', ''DISPATCHER''])
      = pre @ [CHR 0x27] @ ''ADMIN'' @ [CHR 0x27] @ post) \<and>
   (\<exists>pre post. detail (Forbidden [''ADMIN'', ''DISPATCHER''])
      = pre @ [CHR 0x27] @ ''DISPATCHER'' @ [CHR 0x27] @ post) \<and>
   detail (Forbidden [''ADMIN'', ''DISPATCHER'']) =
      ''Requires one of roles: ['' @ [CHR 0x27] @ ''ADMIN'' @ [CHR 0x27] @ '', ''
        @ [CHR 0x27] @ ''DISPATCHER'' @ [CHR 0x27] @ '']'' \<and>
   detail (Forbidden [''it'' @ [CHR 0x27] @ ''s'']) =
      ''Requires one of roles: ['' @ [CHR 0x22] @ ''it'' @ [CHR 0x27] @ ''s'' @ [CHR 0x22] @ '']'' \<and>
   result (get_current_user (test_world dev_settings [admin_user, officer_user]) None
      (Some ''sub-admin'') initial_state) = Inr admin_user \<and>
   role admin_user \<in> set [''ADMIN'', ''DISPATCHER''] \<and>
   result (require_role [''ADMIN'', ''DISPATCHER''] (test_world dev_settings [admin_user, officer_user])
      None (Some ''sub-admin'') initial_state) = Inr admin_user"
proof -
  let ?W = "test_world dev_settings [admin_user, officer_user]"
  let ?roles = "[''ADMIN'', ''DISPATCHER'']"
  have officer: "result (get_current_user ?W None (Some ''sub-officer'') initial_state) = Inr officer_user"
    by (simp add: get_current_user_def config_defs fixture_defs scalars_first_def)
  have admin: "result (get_current_user ?W None (Some ''sub-admin'') initial_state) = Inr admin_user"
    by (simp add: get_current_user_def config_defs fixture_defs scalars_first_def)
  have roles: "?roles \<noteq> []" "role officer_user \<notin> set ?roles" "role admin_user \<in> set ?roles"
    by (simp_all add: officer_user_def admin_user_def)
  have plain: "plain_name ''ADMIN''" "plain_name ''DISPATCHER''"
    by (simp_all add: plain_name_def printable_def)
  have rendered: "detail (Forbidden ?roles) =
      ''Requires one of roles: ['' @ [CHR 0x27] @ ''ADMIN'' @ [CHR 0x27] @ '', ''
        @ [CHR 0x27] @ ''DISPATCHER'' @ [CHR 0x27] @ '']''"
    "detail (Forbidden [''it'' @ [CHR 0x27] @ ''s'']) =
      ''Requires one of roles: ['' @ [CHR 0x22] @ ''it'' @ [CHR 0x27] @ ''s'' @ [CHR 0x22] @ '']''"
    by (simp_all add: Forbidden_def repr_defs)
  note guard = require_role_guard [where roles = ?roles and W = ?W and token = None
      and st = initial_state]
  have refused: "result (require_role ?roles ?W None (Some ''sub-officer'') initial_state)
      = Inl (Forbidden ?roles)"
    using guard [where ctx = "Some ''sub-officer''"] officer roles by blast
  have quoted: "\<forall>r \<in> set ?roles. plain_name r \<longrightarrow>
      (\<exists>pre post. detail (Forbidden ?roles) = pre @ [CHR 0x27] @ r @ [CHR 0x27] @ post)"
    using guard [where ctx = "Some ''sub-officer''"] officer roles by blast
  have q1: "\<exists>pre post. detail (Forbidden ?roles) = pre @ [CHR 0x27] @ ''ADMIN'' @ [CHR 0x27] @ post"
    using quoted plain(1) by simp
  have q2: "\<exists>pre post. detail (Forbidden ?roles) = pre @ [CHR 0x27] @ ''DISPATCHER'' @ [CHR 0x27] @ post"
    using quoted plain(2) by simp
  have passed: "result (require_role ?roles ?W None (Some ''sub-admin'') initial_state) = Inr admin_user"
    using guard [where ctx = "Some ''sub-admin''"] admin roles by blast
  show ?thesis
    by (intro conjI) (rule officer roles refused plain q1 q2 rendered admin passed)+
qed

subsection \<open>The development bypass\<close>

text \<open>
  C1. When the environment is production the development bypass is off whatever
  \<^verbatim>\<open>dev_skip_auth\<close> says: resolution does not depend on the flag, on the context variable
  or on the headers of the request (only on its bearer token); without a token it fails
  with the 401 "Not authenticated"; and it returns a user only for a non-empty token that
  \<^verbatim>\<open>_verify_cognito_jwt\<close> accepts against the key set \<^verbatim>\<open>_get_jwks\<close> returned, whose
  subject is that user's.
\<close>

theorem production_ignores_dev_bypass:
  "environment (config W) = ''production'' \<Longrightarrow>
     \<not> auth_disabled (config W) \<and>
     get_current_user W token ctx st =
       get_current_user (W\<lparr>config := (config W)\<lparr>dev_skip_auth := flag\<rparr>\<rparr>) token ctx' st \<and>
     (bearer_token req' = bearer_token req \<longrightarrow>
        serve roles W req st =
          serve roles (W\<lparr>config := (config W)\<lparr>dev_skip_auth := flag\<rparr>\<rparr>) req' st) \<and>
     (token = None \<longrightarrow> result (get_current_user W token ctx st) = Inl Unauthenticated) \<and>
     (\<forall>u. result (get_current_user W token ctx st) = Inr u \<longrightarrow>
        (\<exists>tok jwks payload.
           token = Some tok \<and> tok \<noteq> [] \<and>
           result (get_jwks (float_sub W) (config W) (clock W) (jwks_endpoint W) st) = Inr jwks \<and>
           verify_cognito_jwt (lib W) (config W) tok jwks = Inr payload \<and>
           payload ''sub'' = Some (JStr (cognito_user_id u))))"
proof -
  assume prod: "environment (config W) = ''production''"
  let ?W' = "W\<lparr>config := (config W)\<lparr>dev_skip_auth := flag\<rparr>\<rparr>"
  have off: "\<not> auth_disabled (config W)" and off': "\<not> auth_disabled (config ?W')"
    using prod by (simp_all add: config_defs)
  have same: "get_current_user W token ctx st = get_current_user ?W' token ctx' st"
    by (simp add: production_path [OF off] production_path [OF off'] flag_irrelevant Let_def
          cong: option.case_cong sum.case_cong if_cong)
  have nores: "context_var (config W) req = None" "context_var (config ?W') req' = None"
    using off off' by (simp_all add: context_var_def)
  have served: "bearer_token req' = bearer_token req \<longrightarrow>
        serve roles W req st = serve roles ?W' req' st"
    by (simp add: serve_def require_role_def nores production_path [OF off]
          production_path [OF off'] flag_irrelevant Let_def
          cong: option.case_cong sum.case_cong if_cong)
  have notoken: "token = None \<longrightarrow> result (get_current_user W token ctx st) = Inl Unauthenticated"
    by (simp add: production_path [OF off])
  have valid: "\<forall>u. result (get_current_user W token ctx st) = Inr u \<longrightarrow>
        (\<exists>tok jwks payload.
           token = Some tok \<and> tok \<noteq> [] \<and>
           result (get_jwks (float_sub W) (config W) (clock W) (jwks_endpoint W) st) = Inr jwks \<and>
           verify_cognito_jwt (lib W) (config W) tok jwks = Inr payload \<and>
           payload ''sub'' = Some (JStr (cognito_user_id u)))"
    by (auto simp: production_path [OF off] returning_def Let_def
          split: option.splits if_splits sum.splits dest: scalars_first_SomeD)
  from off same served notoken valid show ?thesis by blast
qed

theorem production_ignores_dev_bypass_witness:
  "environment (config (test_world (test_settings\<lparr>dev_skip_auth := True\<rparr>) [admin_user, officer_user]))
     = ''production'' \<and>
   dev_skip_auth (config (test_world (test_settings\<lparr>dev_skip_auth := True\<rparr>) [admin_user, officer_user])) \<and>
   result (get_current_user (test_world (test_settings\<lparr>dev_skip_auth := True\<rparr>) [admin_user, officer_user])
      None (Some ''sub-admin'') initial_state) = Inl Unauthenticated \<and>
   result (serve [] (test_world (test_settings\<lparr>dev_skip_auth := True\<rparr>) [admin_user, officer_user])
      \<lparr> req_headers = [(''X-Dev-User-ID'', ''sub-admin'')], bearer_token = None \<rparr> initial_state)
     = Inl Unauthenticated"
proof -
  let ?W = "test_world (test_settings\<lparr>dev_skip_auth := True\<rparr>) [admin_user, officer_user]"
  let ?req = "\<lparr> req_headers = [(''X-Dev-User-ID'', ''sub-admin'')], bearer_token = None \<rparr>"
  have prod: "environment (config ?W) = ''production''"
    by (simp add: test_world_def test_settings_def)
  have flag: "dev_skip_auth (config ?W)"
    by (simp add: test_world_def)
  note inst = production_ignores_dev_bypass [OF prod, of None _ initial_state]
  have direct: "result (get_current_user ?W None (Some ''sub-admin'') initial_state) = Inl Unauthenticated"
    using inst [of "Some ''sub-admin''"] by simp
  have served: "result (serve [] ?W ?req initial_state) = Inl Unauthenticated"
    using inst [of "context_var (config ?W) ?req"]
    by (simp add: serve_def require_role_def check_role_def)
  from prod flag direct served show ?thesis by simp
qed

text \<open>
  C10. In development-bypass mode an empty override value is an absent one: resolution
  with the context variable set to the empty string is resolution with it unset, namely the
  first active ADMIN row or the "no matching user" failure, and a request whose
  \<^verbatim>\<open>X-Dev-User-ID\<close> header is empty is served like one without the header.
\<close>

theorem empty_override_is_absent:
  "auth_disabled (config W) \<Longrightarrow>
     get_current_user W token (Some '''') st = get_current_user W token None st \<and>
     result (get_current_user W token (Some '''') st) =
       (case scalars_first (\<lambda>u. role u = ''ADMIN'' \<and> is_active u) (users W) of
          Some u \<Rightarrow> Inr u
        | None \<Rightarrow> Inl NoDevUser) \<and>
     (dev_auth_middleware req = Some '''' \<and> dev_auth_middleware req' = None \<longrightarrow>
        serve roles W req st = serve roles W req' st)"
  by (simp add: get_current_user_def serve_def require_role_def context_var_def
           split: option.splits)

theorem empty_override_is_absent_witness:
  "auth_disabled (config (test_world dev_settings [blank_subject_user, admin_user])) \<and>
   dev_auth_middleware \<lparr> req_headers = [(''X-Dev-User-ID'', '''')], bearer_token = None \<rparr> = Some '''' \<and>
   dev_auth_middleware \<lparr> req_headers = [], bearer_token = None \<rparr> = None \<and>
   result (serve [] (test_world dev_settings [blank_subject_user, admin_user])
      \<lparr> req_headers = [(''X-Dev-User-ID'', '''')], bearer_token = None \<rparr> initial_state) = Inr admin_user \<and>
   result (serve [] (test_world dev_settings [blank_subject_user, admin_user])
      \<lparr> req_headers = [], bearer_token = None \<rparr> initial_state) = Inr admin_user"
proof -
  let ?W = "test_world dev_settings [blank_subject_user, admin_user]"
  let ?req = "\<lparr> req_headers = [(''X-Dev-User-ID'', '''')], bearer_token = None \<rparr>"
  let ?req' = "\<lparr> req_headers = [], bearer_token = None \<rparr>"
  have dev': "auth_disabled dev_settings"
    by (simp add: config_defs fixture_defs)
  have dev: "auth_disabled (config ?W)"
    by (simp add: dev' test_world_def)
  have hdr: "dev_auth_middleware ?req = Some '''' \<and> dev_auth_middleware ?req' = None"
    by (simp add: dev_auth_middleware_def headers_get_def lower_def lower_char_def)
  have absent: "result (serve [] ?W ?req' initial_state) = Inr admin_user"
    by (simp add: serve_def require_role_def check_role_def context_var_def hdr dev'
          get_current_user_def scalars_first_def test_world_def admin_user_def
          blank_subject_user_def)
  from empty_override_is_absent [OF dev, of None initial_state ?req ?req' "[]"] dev hdr absent
  show ?thesis by simp
qed

subsection \<open>The token verifier\<close>

text \<open>
  C3. A token whose header parses and declares a key id present in the key set, from whose
  entry \<^verbatim>\<open>jwk.construct\<close> builds a key under which \<^verbatim>\<open>jwt.decode\<close> accepts the token
  (signature valid, not expired), whose issuer is the one built from the configured region
  and pool identifier and whose \<^verbatim>\<open>token_use\<close> is "access", is accepted: the verifier
  returns the decoded claims, so the subject in them is the token's own.
\<close>

theorem verify_accepts_valid_token:
  "get_unverified_header J token = Some h \<Longrightarrow>
   h ''kid'' = Some (JStr kid) \<Longrightarrow>
   map_of jwks kid = Some entry \<Longrightarrow>
   construct J entry = Some key \<Longrightarrow>
   decode J token key = Decoded payload \<Longrightarrow>
   payload ''iss'' = Some (JStr (''https://cognito-idp.'' @ aws_region s @ ''.amazonaws.com/''
                                   @ cognito_user_pool_id s)) \<Longrightarrow>
   payload ''token_use'' = Some (JStr ''access'') \<Longrightarrow>
   verify_cognito_jwt J s token jwks = Inr payload \<and>
   (\<exists>returned. verify_cognito_jwt J s token jwks = Inr returned \<and>
       returned ''sub'' = payload ''sub'')"
  by (simp add: verify_cognito_jwt_def jwks_lookup_def expected_issuer_def)

theorem verify_accepts_valid_token_witness:
  "get_unverified_header test_lib ''valid'' = Some [''kid'' \<mapsto> JStr ''test-key-1''] \<and>
   map_of FAKE_JWKS ''test-key-1'' = Some test_key \<and>
   construct test_lib test_key = Some test_key \<and>
   decode test_lib ''valid'' test_key
     = Decoded (make_payload ''sub-admin'' TEST_ISS ''access'') \<and>
   (\<exists>returned. verify_cognito_jwt test_lib test_settings ''valid'' FAKE_JWKS = Inr returned \<and>
       returned ''sub'' = Some (JStr ''sub-admin'') \<and>
       returned ''token_use'' = Some (JStr ''access''))"
proof -
  let ?h = "[''kid'' \<mapsto> JStr ''test-key-1'']"
  let ?p = "make_payload ''sub-admin'' TEST_ISS ''access''"
  have hdr: "get_unverified_header test_lib ''valid'' = Some ?h"
    by (simp add: test_lib_def)
  have kid: "?h ''kid'' = Some (JStr ''test-key-1'')"
    by simp
  have entry: "map_of FAKE_JWKS ''test-key-1'' = Some test_key"
    by (simp add: FAKE_JWKS_def)
  have key: "construct test_lib test_key = Some test_key"
    by (simp add: test_lib_def test_key_def)
  have dec: "decode test_lib ''valid'' test_key = Decoded ?p"
    by (simp add: test_lib_def test_key_def)
  have iss: "?p ''iss'' = Some (JStr (''https://cognito-idp.'' @ aws_region test_settings
                 @ ''.amazonaws.com/'' @ cognito_user_pool_id test_settings))"
    by (simp add: make_payload_def TEST_ISS_def test_settings_def)
  have use: "?p ''token_use'' = Some (JStr ''access'')"
    by (simp add: make_payload_def)
  have sub: "?p ''sub'' = Some (JStr ''sub-admin'')"
    by (simp add: make_payload_def)
  from verify_accepts_valid_token [OF hdr kid entry key dec iss use] hdr entry key dec sub use
  show ?thesis by simp
qed

text \<open>
  C4. The verifier is to stop at the first failing step and to fail, whenever a step
  fails, with one of the six kinds MalformedToken, UnknownKey, VerificationFailed, Expired,
  WrongIssuer, WrongTokenUse; its own docstring promises an \<^verbatim>\<open>HTTPException(401)\<close> on any
  failure. The code does so for the steps it guards (\<open>verify_steps\<close>), but the membership
  test \<^verbatim>\<open>kid not in jwks\<close> stands outside every \<^verbatim>\<open>try\<close>: for a token whose header
  declares a list as its key id, which is in no key set, the verifier raises \<^verbatim>\<open>TypeError\<close>
  instead of UnknownKey, identity resolution lets it through, and the application answers
  500.
\<close>

theorem unhashable_kid_escapes_verifier:
  "get_unverified_header test_lib ''list-kid'' = Some [''kid'' \<mapsto> JList [JStr ''test-key-1'']] \<and>
   verify_cognito_jwt test_lib test_settings ''list-kid'' FAKE_JWKS = Inl TypeError \<and>
   TypeError \<notin> set [MalformedToken, UnknownKey, VerificationFailed, Expired, WrongIssuer,
                    WrongTokenUse] \<and>
   result (get_current_user (test_world test_settings [admin_user]) (Some ''list-kid'') None
      initial_state) = Inl TypeError \<and>
   response_status TypeError = 500"
proof -
  have hdr: "get_unverified_header test_lib ''list-kid'' = Some [''kid'' \<mapsto> JList [JStr ''test-key-1'']]"
    by (simp add: test_lib_def)
  have run: "verify_cognito_jwt test_lib test_settings ''list-kid'' jwks = Inl TypeError" for jwks
    by (simp add: verify_cognito_jwt_def hdr jwks_lookup_def)
  have kinds: "TypeError \<notin> set [MalformedToken, UnknownKey, VerificationFailed, Expired,
      WrongIssuer, WrongTokenUse]"
    by (simp add: error_defs)
  have prod: "\<not> auth_disabled (config (test_world test_settings [admin_user]))"
    by (simp add: config_defs test_world_def test_settings_def)
  have sel: "config (test_world test_settings [admin_user]) = test_settings"
    "lib (test_world test_settings [admin_user]) = test_lib"
    "clock (test_world test_settings [admin_user]) = 1000"
    "float_sub (test_world test_settings [admin_user]) = (-)"
    "jwks_endpoint (test_world test_settings [admin_user]) = Some [test_key]"
    by (simp_all add: test_world_def)
  have conf: "cognito_configured test_settings"
    by (simp add: cognito_configured_def test_settings_def)
  have fetched: "get_jwks (-) test_settings 1000 (Some [test_key]) initial_state
      = \<lparr> result = Inr (dict_of_keys [test_key]),
          globals = \<lparr> jwks_cache = dict_of_keys [test_key], jwks_fetched_at = 1000 \<rparr>,
          http_gets = 1 \<rparr>"
    by (simp add: get_jwks_def initial_state_def conf)
  have resolved: "result (get_current_user (test_world test_settings [admin_user])
      (Some ''list-kid'') None initial_state) = Inl TypeError"
    by (simp add: production_path [OF prod] sel conf fetched run returning_def)
  from hdr run kinds resolved show ?thesis by simp
qed

subsection \<open>The signing-key cache\<close>

text \<open>
  C6 (as amended). When \<^verbatim>\<open>_get_jwks\<close> tries the remote fetch and the fetch fails, the
  two globals are left as they were; if the cached key set is not empty the call returns it,
  however old it is; if it is empty (never fetched, or fetched with no keys in it) the call
  raises the 503 "Authentication service unavailable".
\<close>

theorem fetch_failure_keeps_cache:
  "http_gets (get_jwks fsub s now None st) = 1 \<Longrightarrow>
     globals (get_jwks fsub s now None st) = st \<and>
     (jwks_cache st \<noteq> [] \<longrightarrow> result (get_jwks fsub s now None st) = Inr (jwks_cache st)) \<and>
     (jwks_cache st = [] \<longrightarrow> result (get_jwks fsub s now None st) = Inl ServiceUnavailable) \<and>
     status_code ServiceUnavailable = 503"
  by (simp add: get_jwks_def ServiceUnavailable_def split: if_splits)

theorem fetch_failure_keeps_cache_witness:
  "http_gets (get_jwks (-) test_settings 100000 None warm_state) = 1 \<and>
   jwks_cache warm_state \<noteq> [] \<and>
   100000 - jwks_fetched_at warm_state \<ge> real_of_int (jwks_cache_ttl test_settings) \<and>
   result (get_jwks (-) test_settings 100000 None warm_state) = Inr FAKE_JWKS \<and>
   globals (get_jwks (-) test_settings 100000 None warm_state) = warm_state \<and>
   http_gets (get_jwks (-) test_settings 5 None initial_state) = 1 \<and>
   result (get_jwks (-) test_settings 5 None initial_state) = Inl ServiceUnavailable \<and>
   globals (get_jwks (-) test_settings 5 None initial_state) = initial_state"
proof -
  have a: "http_gets (get_jwks (-) test_settings 100000 None warm_state) = 1"
    by (simp add: get_jwks_def warm_state_def FAKE_JWKS_def test_settings_def cognito_configured_def)
  have b: "http_gets (get_jwks (-) test_settings 5 None initial_state) = 1"
    by (simp add: get_jwks_def initial_state_def test_settings_def cognito_configured_def)
  have c: "jwks_cache warm_state = FAKE_JWKS" "FAKE_JWKS \<noteq> []" "jwks_cache initial_state = []"
    "100000 - jwks_fetched_at warm_state \<ge> real_of_int (jwks_cache_ttl test_settings)"
    by (simp_all add: warm_state_def FAKE_JWKS_def initial_state_def test_settings_def)
  from fetch_failure_keeps_cache [OF a] fetch_failure_keeps_cache [OF b] a b c
  show ?thesis by simp
qed

text \<open>
  The claim as the specification words it fails for a key set that was fetched and cached
  but holds no key: a successful fetch of an empty key list stores it and stamps the time,
  and the failing fetch of the next call raises 503 instead of returning the stored set.
\<close>

theorem empty_key_set_not_kept_counterexample:
  "http_gets (get_jwks (-) test_settings 100 (Some []) initial_state) = 1 \<and>
   result (get_jwks (-) test_settings 100 (Some []) initial_state) = Inr [] \<and>
   globals (get_jwks (-) test_settings 100 (Some []) initial_state)
     = \<lparr> jwks_cache = [], jwks_fetched_at = 100 \<rparr> \<and>
   http_gets (get_jwks (-) test_settings 200 None \<lparr> jwks_cache = [], jwks_fetched_at = 100 \<rparr>) = 1 \<and>
   result (get_jwks (-) test_settings 200 None \<lparr> jwks_cache = [], jwks_fetched_at = 100 \<rparr>)
     = Inl ServiceUnavailable \<and>
   result (get_jwks (-) test_settings 200 None \<lparr> jwks_cache = [], jwks_fetched_at = 100 \<rparr>)
     \<noteq> Inr (jwks_cache \<lparr> jwks_cache = [], jwks_fetched_at = 100 \<rparr>)"
  by (simp add: get_jwks_def initial_state_def test_settings_def cognito_configured_def
        dict_of_keys_def)

text \<open>
  C7 (as amended). After a successful fetch of a non-empty key list, every later call
  that passes the age test of the code (the float difference of its clock reading and the
  fetch time is less than the TTL) returns the cached set, leaves the globals alone and
  sends no request, whatever the calls before it were; a call that fails the age test sends
  exactly one request. The float difference is whatever Python's subtraction yields, rounding
  included. The default TTL is 86400 seconds.
\<close>

theorem cache_hit_within_ttl:
  "http_gets (get_jwks fsub s t0 (Some keys) st0) = 1 \<Longrightarrow> keys \<noteq> [] \<Longrightarrow>
     result (get_jwks fsub s t0 (Some keys) st0) = Inr (dict_of_keys keys) \<and>
     ((\<forall>(t, net) \<in> set calls. fsub t t0 < real_of_int (jwks_cache_ttl s)) \<longrightarrow>
        (\<forall>out \<in> set (get_jwks_calls fsub s calls (globals (get_jwks fsub s t0 (Some keys) st0))).
           out = \<lparr> result = Inr (dict_of_keys keys),
                   globals = globals (get_jwks fsub s t0 (Some keys) st0), http_gets = 0 \<rparr>)) \<and>
     (fsub t t0 < real_of_int (jwks_cache_ttl s) \<longrightarrow>
        get_jwks fsub s t net (globals (get_jwks fsub s t0 (Some keys) st0))
          = \<lparr> result = Inr (dict_of_keys keys),
              globals = globals (get_jwks fsub s t0 (Some keys) st0), http_gets = 0 \<rparr>) \<and>
     (fsub t t0 \<ge> real_of_int (jwks_cache_ttl s) \<longrightarrow>
        http_gets (get_jwks fsub s t net (globals (get_jwks fsub s t0 (Some keys) st0))) = 1) \<and>
     jwks_cache_ttl default_settings = 86400"
proof -
  assume fetched: "http_gets (get_jwks fsub s t0 (Some keys) st0) = 1" and keys: "keys \<noteq> []"
  let ?st = "st0 \<lparr> jwks_cache := dict_of_keys keys, jwks_fetched_at := t0 \<rparr>"
  have conf: "cognito_configured s"
    using fetched by (simp add: get_jwks_def split: if_splits)
  have first: "get_jwks fsub s t0 (Some keys) st0
      = \<lparr> result = Inr (dict_of_keys keys), globals = ?st, http_gets = 1 \<rparr>"
    using fetched by (simp add: get_jwks_def split: if_splits)
  have nonempty: "jwks_cache ?st \<noteq> []"
    using keys by (simp add: dict_of_keys_Nil_iff)
  have seq: "(\<forall>(t, net) \<in> set calls. fsub t t0 < real_of_int (jwks_cache_ttl s)) \<longrightarrow>
        (\<forall>out \<in> set (get_jwks_calls fsub s calls ?st).
           out = \<lparr> result = Inr (dict_of_keys keys), globals = ?st, http_gets = 0 \<rparr>)"
    using fresh_cache_hits [OF nonempty, of calls fsub s] by simp
  have one: "fsub t t0 < real_of_int (jwks_cache_ttl s) \<longrightarrow>
        get_jwks fsub s t net ?st = \<lparr> result = Inr (dict_of_keys keys), globals = ?st, http_gets = 0 \<rparr>"
    using fresh_cache_hit [OF nonempty, of fsub t s net] by simp
  have late: "fsub t t0 \<ge> real_of_int (jwks_cache_ttl s) \<longrightarrow> http_gets (get_jwks fsub s t net ?st) = 1"
    using conf by (simp add: get_jwks_def split: option.splits)
  show ?thesis
    using seq one late by (simp add: first default_settings_def)
qed

theorem cache_hit_within_ttl_witness:
  "http_gets (get_jwks (-) test_settings 1000 (Some [test_key]) initial_state) = 1 \<and>
   [test_key] \<noteq> [] \<and>
   globals (get_jwks (-) test_settings 1000 (Some [test_key]) initial_state)
     = \<lparr> jwks_cache = FAKE_JWKS, jwks_fetched_at = 1000 \<rparr> \<and>
   get_jwks_calls (-) test_settings [(1001, None), (5000, Some [])]
       \<lparr> jwks_cache = FAKE_JWKS, jwks_fetched_at = 1000 \<rparr>
     = [\<lparr> result = Inr FAKE_JWKS,
          globals = \<lparr> jwks_cache = FAKE_JWKS, jwks_fetched_at = 1000 \<rparr>, http_gets = 0 \<rparr>,
        \<lparr> result = Inr FAKE_JWKS,
          globals = \<lparr> jwks_cache = FAKE_JWKS, jwks_fetched_at = 1000 \<rparr>, http_gets = 0 \<rparr>] \<and>
   http_gets (get_jwks (-) test_settings 87399 (Some [rotated_key])
       \<lparr> jwks_cache = FAKE_JWKS, jwks_fetched_at = 1000 \<rparr>) = 0 \<and>
   http_gets (get_jwks (-) test_settings 87400 (Some [rotated_key])
       \<lparr> jwks_cache = FAKE_JWKS, jwks_fetched_at = 1000 \<rparr>) = 1"
proof -
  let ?first = "get_jwks (-) test_settings 1000 (Some [test_key]) initial_state"
  let ?st = "\<lparr> jwks_cache = FAKE_JWKS, jwks_fetched_at = 1000 \<rparr>"
  have fetched: "http_gets ?first = 1"
    by (simp add: get_jwks_def initial_state_def test_settings_def cognito_configured_def)
  have keys: "[test_key] \<noteq> []" by simp
  have st: "globals ?first = ?st"
    by (simp add: get_jwks_def initial_state_def test_settings_def cognito_configured_def
          dict_of_keys_def FAKE_JWKS_def test_key_def)
  have dict: "dict_of_keys [test_key] = FAKE_JWKS"
    by (simp add: dict_of_keys_def FAKE_JWKS_def test_key_def)
  have ttl: "jwks_cache_ttl test_settings = 86400"
    by (simp add: test_settings_def)
  have seq: "get_jwks_calls (-) test_settings [(1001, None), (5000, Some [])] ?st
     = [\<lparr> result = Inr FAKE_JWKS, globals = ?st, http_gets = 0 \<rparr>,
        \<lparr> result = Inr FAKE_JWKS, globals = ?st, http_gets = 0 \<rparr>]"
    using cache_hit_within_ttl [OF fetched keys, of "[(1001, None), (5000, Some [])]"]
    by (simp add: st dict ttl Let_def)
  have early: "http_gets (get_jwks (-) test_settings 87399 (Some [rotated_key]) ?st) = 0"
    using cache_hit_within_ttl [OF fetched keys, of "[]" 87399 "Some [rotated_key]"]
    by (simp add: st dict ttl)
  have late: "http_gets (get_jwks (-) test_settings 87400 (Some [rotated_key]) ?st) = 1"
    using cache_hit_within_ttl [OF fetched keys, of "[]" 87400 "Some [rotated_key]"]
    by (simp add: st dict ttl)
  from fetched keys st seq early late show ?thesis by simp
qed

text \<open>
  The claim as the specification words it fails when the fetched key list is empty: the
  emptiness test \<^verbatim>\<open>if _jwks_cache and ...\<close> sends the next call to the network again,
  one second after the fetch.
\<close>

theorem empty_key_set_refetched_counterexample:
  "http_gets (get_jwks (-) test_settings 100 (Some []) initial_state) = 1 \<and>
   result (get_jwks (-) test_settings 100 (Some []) initial_state) = Inr [] \<and>
   globals (get_jwks (-) test_settings 100 (Some []) initial_state)
     = \<lparr> jwks_cache = [], jwks_fetched_at = 100 \<rparr> \<and>
   101 - jwks_fetched_at \<lparr> jwks_cache = [], jwks_fetched_at = 100 \<rparr>
     < real_of_int (jwks_cache_ttl test_settings) \<and>
   http_gets (get_jwks (-) test_settings 101 (Some []) \<lparr> jwks_cache = [], jwks_fetched_at = 100 \<rparr>) = 1"
  by (simp add: get_jwks_def initial_state_def test_settings_def cognito_configured_def
        dict_of_keys_def)




subsection \<open>The identity resolver\<close>

text \<open>
  C2. Every user that identity resolution returns should be active. The override branch of
  the development bypass does not check this: with \<^verbatim>\<open>X-Dev-User-ID\<close> naming a user whose
  \<^verbatim>\<open>is_active\<close> is false, resolution returns that user. (The token path and the admin
  fallback do check it, see \<open>resolved_user_active_unless_override\<close>.)
\<close>

theorem dev_override_returns_inactive_user:
  "auth_disabled (config (test_world dev_settings [admin_user, inactive_user])) \<and>
   scalars_first (\<lambda>u. cognito_user_id u = ''sub-inactive'') [admin_user, inactive_user]
     = Some inactive_user \<and>
   is_active inactive_user = False \<and>
   result (get_current_user (test_world dev_settings [admin_user, inactive_user]) None
      (Some ''sub-inactive'') initial_state) = Inr inactive_user \<and>
   result (serve [] (test_world dev_settings [admin_user, inactive_user])
      \<lparr> req_headers = [(''X-Dev-User-ID'', ''sub-inactive'')], bearer_token = None \<rparr>
      initial_state) = Inr inactive_user"
proof -
  have dev: "auth_disabled dev_settings"
    by (simp add: config_defs dev_settings_def test_settings_def)
  have hdr: "dev_auth_middleware
      \<lparr> req_headers = [(''X-Dev-User-ID'', ''sub-inactive'')], bearer_token = None \<rparr>
      = Some ''sub-inactive''"
    by (simp add: dev_auth_middleware_def headers_get_def lower_def lower_char_def)
  have row: "scalars_first (\<lambda>u. cognito_user_id u = ''sub-inactive'') [admin_user, inactive_user]
     = Some inactive_user"
    by (simp add: scalars_first_def admin_user_def inactive_user_def)
  have inactive: "is_active inactive_user = False"
    by (simp add: inactive_user_def)
  have direct: "result (get_current_user (test_world dev_settings [admin_user, inactive_user]) None
      (Some ''sub-inactive'') initial_state) = Inr inactive_user"
    by (simp add: get_current_user_def test_world_def dev row)
  from dev hdr row inactive direct show ?thesis
    by (simp add: serve_def require_role_def check_role_def context_var_def test_world_def)
qed

text \<open>
  C8 (as amended). In development-bypass mode with no override subject (the context
  variable unset or empty) resolution returns the first row of the users query that is an
  active ADMIN: no row before it is one, and no ordering by creation time takes part. When
  neither the override lookup nor this fallback yields a user, resolution fails with the
  "no matching user" 401.
\<close>

theorem dev_fallback_first_admin:
  "auth_disabled (config W) \<Longrightarrow>
     (ctx = None \<or> ctx = Some '''' \<longrightarrow>
        result (get_current_user W token ctx st) =
          (case scalars_first (\<lambda>u. role u = ''ADMIN'' \<and> is_active u) (users W) of
             Some u \<Rightarrow> Inr u
           | None \<Rightarrow> Inl NoDevUser)) \<and>
     (\<forall>u. (ctx = None \<or> ctx = Some '''') \<and> result (get_current_user W token ctx st) = Inr u \<longrightarrow>
        role u = ''ADMIN'' \<and> is_active u \<and>
        (\<exists>before after. users W = before @ u # after \<and>
           (\<forall>v \<in> set before. \<not> (role v = ''ADMIN'' \<and> is_active v)))) \<and>
     ((\<forall>sub. ctx = Some sub \<longrightarrow>
          scalars_first (\<lambda>u. cognito_user_id u = sub) (users W) = None) \<and>
      scalars_first (\<lambda>u. role u = ''ADMIN'' \<and> is_active u) (users W) = None \<longrightarrow>
        result (get_current_user W token ctx st) = Inl NoDevUser)"
proof -
  assume dev: "auth_disabled (config W)"
  let ?admin = "scalars_first (\<lambda>u. role u = ''ADMIN'' \<and> is_active u) (users W)"
  have fallback: "ctx = None \<or> ctx = Some '''' \<longrightarrow>
        result (get_current_user W token ctx st) =
          (case ?admin of Some u \<Rightarrow> Inr u | None \<Rightarrow> Inl NoDevUser)"
    using dev by (auto simp: get_current_user_def split: option.splits)
  have first: "\<forall>u. (ctx = None \<or> ctx = Some '''') \<and>
        result (get_current_user W token ctx st) = Inr u \<longrightarrow>
        role u = ''ADMIN'' \<and> is_active u \<and>
        (\<exists>before after. users W = before @ u # after \<and>
           (\<forall>v \<in> set before. \<not> (role v = ''ADMIN'' \<and> is_active v)))"
  proof (intro allI impI)
    fix u
    assume a: "(ctx = None \<or> ctx = Some '''') \<and>
        result (get_current_user W token ctx st) = Inr u"
    with fallback have "?admin = Some u"
      by (auto split: option.splits)
    from scalars_first_split [OF this]
    show "role u = ''ADMIN'' \<and> is_active u \<and>
        (\<exists>before after. users W = before @ u # after \<and>
           (\<forall>v \<in> set before. \<not> (role v = ''ADMIN'' \<and> is_active v)))"
      by blast
  qed
  have neither: "(\<forall>sub. ctx = Some sub \<longrightarrow>
          scalars_first (\<lambda>u. cognito_user_id u = sub) (users W) = None) \<and>
      ?admin = None \<longrightarrow>
        result (get_current_user W token ctx st) = Inl NoDevUser"
    using dev by (auto simp: get_current_user_def split: option.splits)
  from fallback first neither show ?thesis by blast
qed

theorem dev_fallback_first_admin_witness:
  "auth_disabled (config (test_world dev_settings [officer_user, admin_user, newer_admin])) \<and>
   result (get_current_user (test_world dev_settings [officer_user, admin_user, newer_admin])
      None None initial_state) = Inr admin_user \<and>
   users (test_world dev_settings [officer_user, admin_user, newer_admin])
     = [officer_user] @ admin_user # [newer_admin] \<and>
   role admin_user = ''ADMIN'' \<and> is_active admin_user \<and>
   auth_disabled (config (test_world dev_settings [officer_user])) \<and>
   scalars_first (\<lambda>u. cognito_user_id u = ''nobody'') (users (test_world dev_settings [officer_user]))
     = None \<and>
   result (get_current_user (test_world dev_settings [officer_user]) None (Some ''nobody'')
      initial_state) = Inl NoDevUser \<and>
   result (get_current_user (test_world dev_settings [officer_user]) None None
      initial_state) = Inl NoDevUser"
proof -
  let ?W = "test_world dev_settings [officer_user, admin_user, newer_admin]"
  let ?V = "test_world dev_settings [officer_user]"
  have dev: "auth_disabled (config ?W)" "auth_disabled (config ?V)"
    by (simp_all add: config_defs test_world_def dev_settings_def test_settings_def)
  have first: "scalars_first (\<lambda>u. role u = ''ADMIN'' \<and> is_active u) (users ?W) = Some admin_user"
    by (simp add: scalars_first_def test_world_def officer_user_def admin_user_def)
  have none: "scalars_first (\<lambda>u. role u = ''ADMIN'' \<and> is_active u) (users ?V) = None"
    by (simp add: scalars_first_def test_world_def officer_user_def)
  have nobody: "scalars_first (\<lambda>u. cognito_user_id u = ''nobody'') (users ?V) = None"
    by (simp add: scalars_first_def test_world_def officer_user_def)
  have rows: "users ?W = [officer_user] @ admin_user # [newer_admin]"
    by (simp add: test_world_def)
  have admin: "role admin_user = ''ADMIN''" "is_active admin_user"
    by (simp_all add: admin_user_def)
  have r1: "result (get_current_user ?W None None initial_state) = Inr admin_user"
    using dev_fallback_first_admin
      [OF dev(1), where ctx = None and token = None and st = initial_state, THEN conjunct1]
    by (simp add: first)
  have r2: "result (get_current_user ?V None (Some ''nobody'') initial_state) = Inl NoDevUser"
    using dev_fallback_first_admin
      [OF dev(2), where ctx = "Some ''nobody''" and token = None and st = initial_state,
       THEN conjunct2, THEN conjunct2]
    by (simp add: none nobody)
  have r3: "result (get_current_user ?V None None initial_state) = Inl NoDevUser"
    using dev_fallback_first_admin
      [OF dev(2), where ctx = None and token = None and st = initial_state, THEN conjunct1]
    by (simp add: none)
  show ?thesis
    by (intro conjI) (rule dev r1 rows admin nobody r2 r3)+
qed

text \<open>
  The claim as the specification words it fails: with two active admins in the table the
  fallback returns the one the query yields first, here the older one.
\<close>

theorem fallback_not_most_recent_counterexample:
  "auth_disabled (config (test_world dev_settings [admin_user, newer_admin])) \<and>
   result (get_current_user (test_world dev_settings [admin_user, newer_admin])
      None None initial_state) = Inr admin_user \<and>
   most_recent_active_admin (users (test_world dev_settings [admin_user, newer_admin]))
     = Some newer_admin \<and>
   created_at admin_user < created_at newer_admin \<and>
   user_id admin_user \<noteq> user_id newer_admin"
proof -
  let ?W = "test_world dev_settings [admin_user, newer_admin]"
  have dev: "auth_disabled (config ?W)"
    by (simp add: config_defs test_world_def dev_settings_def test_settings_def)
  have first: "scalars_first (\<lambda>u. role u = ''ADMIN'' \<and> is_active u) (users ?W) = Some admin_user"
    by (simp add: scalars_first_def test_world_def admin_user_def)
  have run: "result (get_current_user ?W None None initial_state) = Inr admin_user"
    using dev by (simp add: get_current_user_def first)
  have fields: "role admin_user = ''ADMIN''" "is_active admin_user"
    "role newer_admin = ''ADMIN''" "is_active newer_admin"
    "created_at admin_user = 100" "created_at newer_admin = 300"
    "user_id admin_user = 1" "user_id newer_admin = 5"
    by (simp_all add: admin_user_def newer_admin_def)
  have recent: "most_recent_active_admin (users ?W) = Some newer_admin"
    by (simp add: most_recent_active_admin_def test_world_def fields)
  show ?thesis
    by (intro conjI) (simp_all add: dev run recent fields)
qed

end
